theory Spec2Isabelle
  imports Complex_Main "HOL-Library.Multiset"
begin

chapter \<open>The network tools dashboard: store, tool handlers and rate limiter\<close>

text \<open>
  A shallow embedding of the server of the dashboard: the in-memory store
  (\<open>server/storage.ts\<close>), the handlers of the tool routes (\<open>server/routes.ts\<close>, in its
  variants \<open>registerRoutes\<close> and \<open>attachRoutes\<close>) and the rate limiter of the serverless
  entry point. Everything outside the process is a parameter of the model: the
  identifiers and times drawn by the store, the outcome of the \<open>ping\<close> subprocess, of
  socket connects and of the resolver, and the values of \<open>Math.random()\<close>. The
  definitions come first, the properties after them.
\<close>

section \<open>JavaScript values and library functions used by the server\<close>

text \<open>
  JSON payloads (\<open>jsonb\<close> columns, request bodies). Numbers are IEEE doubles in the
  source; they are modelled as exact rationals.
\<close>

datatype json = JNull | JBool bool | JNum rat | JStr string
  | JArr "json list" | JObj "(string \<times> json) list"

text \<open>The operand test of \<open>x || y\<close>, \<open>!x\<close> and \<open>if (x)\<close> on a JSON value.\<close>

fun falsy :: "json \<Rightarrow> bool" where
  "falsy JNull = True"
| "falsy (JBool b) = (\<not> b)"
| "falsy (JNum n) = (n = 0)"
| "falsy (JStr s) = (s = [])"
| "falsy (JArr xs) = False"
| "falsy (JObj kvs) = False"

text \<open>\<open>x || null\<close> for a JSON payload that may be absent (\<open>undefined\<close>).\<close>

definition json_or_null :: "json option \<Rightarrow> json" where
  "json_or_null x = (case x of None \<Rightarrow> JNull | Some j \<Rightarrow> if falsy j then JNull else j)"

text \<open>\<open>x || null\<close> for an optional string and an optional number.\<close>

definition string_or_null :: "string option \<Rightarrow> string option" where
  "string_or_null x = (case x of None \<Rightarrow> None | Some s \<Rightarrow> if s = [] then None else Some s)"

definition int_or_null :: "int option \<Rightarrow> int option" where
  "int_or_null x = (case x of None \<Rightarrow> None | Some n \<Rightarrow> if n = 0 then None else Some n)"

definition bool_or_null :: "bool option \<Rightarrow> bool option" where
  "bool_or_null x = (case x of None \<Rightarrow> None | Some b \<Rightarrow> if b then Some True else None)"

text \<open>
  \<open>Array.prototype.slice(0, n)\<close>: a negative end counts from the end of the array.
\<close>

definition js_slice0 :: "'a list \<Rightarrow> int \<Rightarrow> 'a list" where
  "js_slice0 xs n =
     (if n < 0 then take (nat (int (length xs) + n)) xs else take (nat n) xs)"

text \<open>
  \<open>Array.prototype.sort(cmp)\<close> is a stable sort: an element is placed before the first
  element that the comparator orders strictly after it, so elements that compare equal
  keep their order in the input.
\<close>

fun insert_cmp :: "('a \<Rightarrow> 'a \<Rightarrow> int) \<Rightarrow> 'a \<Rightarrow> 'a list \<Rightarrow> 'a list" where
  "insert_cmp cmp x [] = [x]"
| "insert_cmp cmp x (y # ys) =
     (if cmp x y < 0 then x # y # ys else y # insert_cmp cmp x ys)"

definition js_sort :: "('a \<Rightarrow> 'a \<Rightarrow> int) \<Rightarrow> 'a list \<Rightarrow> 'a list" where
  "js_sort cmp xs = foldl (\<lambda>acc x. insert_cmp cmp x acc) [] xs"

text \<open>
  A \<open>Map<string, V>\<close> keeps its entries in insertion order: \<open>set\<close> on a present key
  replaces the value in place, \<open>set\<close> on a new key appends, \<open>delete\<close> reports whether
  the key was present.
\<close>

type_synonym 'v js_map = "(string \<times> 'v) list"

definition map_get :: "'v js_map \<Rightarrow> string \<Rightarrow> 'v option" where
  "map_get m k = map_of m k"

fun map_set :: "'v js_map \<Rightarrow> string \<Rightarrow> 'v \<Rightarrow> 'v js_map" where
  "map_set [] k v = [(k, v)]"
| "map_set ((k', v') # m) k v =
     (if k' = k then (k, v) # m else (k', v') # map_set m k v)"

definition map_delete :: "'v js_map \<Rightarrow> string \<Rightarrow> bool \<times> 'v js_map" where
  "map_delete m k = (map_of m k \<noteq> None, filter (\<lambda>kv. fst kv \<noteq> k) m)"

definition map_values :: "'v js_map \<Rightarrow> 'v list" where
  "map_values m = map snd m"

section \<open>The data model (shared/schema.ts)\<close>

text \<open>
  Timestamps are milliseconds since the epoch (\<open>Date.getTime()\<close>). A nullable column is
  an option; \<open>None\<close> is \<open>null\<close>.
\<close>

record User =
  us_id :: string
  us_username :: string
  us_password :: string

record InsertUser =
  iu_username :: string
  iu_password :: string

record NetworkTool =
  nt_id :: string
  nt_name :: string
  nt_category :: string
  nt_description :: "string option"
  nt_icon :: "string option"
  nt_enabled :: "bool option"
  nt_createdAt :: "int option"

record InsertNetworkTool =
  it_name :: string
  it_category :: string
  it_description :: "string option"
  it_icon :: "string option"
  it_enabled :: "bool option"

text \<open>
  \<open>Partial<InsertNetworkTool>\<close>: every field may be absent (\<open>None\<close>); a present
  nullable field carries its own option.
\<close>

record NetworkToolPatch =
  pt_name :: "string option"
  pt_category :: "string option"
  pt_description :: "string option option"
  pt_icon :: "string option option"
  pt_enabled :: "bool option option"

record ToolResult =
  tr_id :: string
  tr_toolName :: string
  tr_userId :: "string option"
  tr_parameters :: json
  tr_results :: json
  tr_status :: "string option"
  tr_executionTime :: "int option"
  tr_createdAt :: "int option"

text \<open>
  \<open>InsertToolResult\<close>: \<open>toolName\<close> is required; the other fields may be absent
  (\<open>status\<close> has a column default, which the in-memory store does not apply).
\<close>

record InsertToolResult =
  ir_toolName :: string
  ir_userId :: "string option"
  ir_parameters :: "json option"
  ir_results :: "json option"
  ir_status :: "string option"
  ir_executionTime :: "int option"

record NetworkEvent =
  ev_id :: string
  ev_eventType :: string
  ev_severity :: string
  ev_message :: string
  ev_source :: "string option"
  ev_metadata :: json
  ev_resolved :: "bool option"
  ev_createdAt :: "int option"

record InsertNetworkEvent =
  ie_eventType :: string
  ie_severity :: string
  ie_message :: string
  ie_source :: "string option"
  ie_metadata :: "json option"
  ie_resolved :: "bool option"

text \<open>\<open>Partial<InsertNetworkEvent>\<close>, the patch of \<open>updateNetworkEvent\<close>.\<close>

record NetworkEventPatch =
  pe_eventType :: "string option"
  pe_severity :: "string option"
  pe_message :: "string option"
  pe_source :: "string option option"
  pe_metadata :: "json option"
  pe_resolved :: "bool option option"

section \<open>MemStorage (server/storage.ts)\<close>

record MemStorage =
  users :: "User js_map"
  networkTools :: "NetworkTool js_map"
  toolResults :: "ToolResult js_map"
  networkEvents :: "NetworkEvent js_map"

text \<open>
  Every method is a function of the store that returns its result and the store after
  the call. The two sources of nondeterminism, \<open>randomUUID()\<close> and \<open>new Date()\<close>, are
  arguments (\<open>uuid\<close>, \<open>now\<close>).
\<close>

definition getUser :: "MemStorage \<Rightarrow> string \<Rightarrow> User option" where
  "getUser s i = map_get (users s) i"

definition getUserByUsername :: "MemStorage \<Rightarrow> string \<Rightarrow> User option" where
  "getUserByUsername s n = find (\<lambda>u. us_username u = n) (map_values (users s))"

definition createUser :: "MemStorage \<Rightarrow> string \<Rightarrow> InsertUser \<Rightarrow> User \<times> MemStorage" where
  "createUser s uuid ins =
     (let user = \<lparr>us_id = uuid, us_username = iu_username ins, us_password = iu_password ins\<rparr>
      in (user, s\<lparr>users := map_set (users s) uuid user\<rparr>))"

definition getNetworkTools :: "MemStorage \<Rightarrow> NetworkTool list" where
  "getNetworkTools s = map_values (networkTools s)"

definition getNetworkTool :: "MemStorage \<Rightarrow> string \<Rightarrow> NetworkTool option" where
  "getNetworkTool s i = map_get (networkTools s) i"

definition createNetworkTool ::
  "MemStorage \<Rightarrow> string \<Rightarrow> int \<Rightarrow> InsertNetworkTool \<Rightarrow> NetworkTool \<times> MemStorage" where
  "createNetworkTool s uuid now tool =
     (let networkTool = \<lparr>nt_id = uuid, nt_name = it_name tool, nt_category = it_category tool,
            nt_description = it_description tool, nt_icon = it_icon tool,
            nt_enabled = it_enabled tool, nt_createdAt = Some now\<rparr>
      in (networkTool, s\<lparr>networkTools := map_set (networkTools s) uuid networkTool\<rparr>))"

text \<open>The object spread \<open>{ ...existing, ...tool }\<close>: a present field of the patch wins.\<close>

definition spread_tool :: "NetworkTool \<Rightarrow> NetworkToolPatch \<Rightarrow> NetworkTool" where
  "spread_tool existing tool =
     existing\<lparr>nt_name := (case pt_name tool of None \<Rightarrow> nt_name existing | Some v \<Rightarrow> v),
       nt_category := (case pt_category tool of None \<Rightarrow> nt_category existing | Some v \<Rightarrow> v),
       nt_description :=
         (case pt_description tool of None \<Rightarrow> nt_description existing | Some v \<Rightarrow> v),
       nt_icon := (case pt_icon tool of None \<Rightarrow> nt_icon existing | Some v \<Rightarrow> v),
       nt_enabled := (case pt_enabled tool of None \<Rightarrow> nt_enabled existing | Some v \<Rightarrow> v)\<rparr>"

definition updateNetworkTool ::
  "MemStorage \<Rightarrow> string \<Rightarrow> NetworkToolPatch \<Rightarrow> NetworkTool option \<times> MemStorage" where
  "updateNetworkTool s i tool =
     (case map_get (networkTools s) i of
        None \<Rightarrow> (None, s)
      | Some existing \<Rightarrow>
          (let updated = spread_tool existing tool
           in (Some updated, s\<lparr>networkTools := map_set (networkTools s) i updated\<rparr>)))"

text \<open>
  The sort key of \<open>getToolResults\<close> and \<open>getNetworkEvents\<close>:
  \<open>createdAt?.getTime() || 0\<close>.
\<close>

definition time_key :: "int option \<Rightarrow> int" where
  "time_key t = (case t of None \<Rightarrow> 0 | Some ms \<Rightarrow> if ms = 0 then 0 else ms)"

definition newest_first :: "ToolResult \<Rightarrow> ToolResult \<Rightarrow> int" where
  "newest_first a b = time_key (tr_createdAt b) - time_key (tr_createdAt a)"

text \<open>
  \<open>getToolResults(toolName?, limit?)\<close>. Both arguments are tested for truthiness: an
  absent or empty \<open>toolName\<close> does not filter, and a \<open>limit\<close> that is absent, \<open>NaN\<close>
  (both \<open>None\<close>) or zero does not slice.
\<close>

definition getToolResults ::
  "MemStorage \<Rightarrow> string option \<Rightarrow> int option \<Rightarrow> ToolResult list" where
  "getToolResults s toolName limit =
     (let results = map_values (toolResults s);
          results = (case toolName of
                       None \<Rightarrow> results
                     | Some n \<Rightarrow> if n = [] then results
                                else filter (\<lambda>result. tr_toolName result = n) results);
          results = js_sort newest_first results
      in case limit of
           None \<Rightarrow> results
         | Some l \<Rightarrow> if l = 0 then results else js_slice0 results l)"

definition getToolResult :: "MemStorage \<Rightarrow> string \<Rightarrow> ToolResult option" where
  "getToolResult s i = map_get (toolResults s) i"

definition createToolResult ::
  "MemStorage \<Rightarrow> string \<Rightarrow> int \<Rightarrow> InsertToolResult \<Rightarrow> ToolResult \<times> MemStorage" where
  "createToolResult s uuid now result =
     (let toolResult = \<lparr>tr_id = uuid, tr_toolName = ir_toolName result,
            tr_userId = string_or_null (ir_userId result),
            tr_parameters = json_or_null (ir_parameters result),
            tr_results = json_or_null (ir_results result),
            tr_status = ir_status result,
            tr_executionTime = int_or_null (ir_executionTime result),
            tr_createdAt = Some now\<rparr>
      in (toolResult, s\<lparr>toolResults := map_set (toolResults s) uuid toolResult\<rparr>))"

definition deleteToolResult :: "MemStorage \<Rightarrow> string \<Rightarrow> bool \<times> MemStorage" where
  "deleteToolResult s i =
     (let (found, m) = map_delete (toolResults s) i in (found, s\<lparr>toolResults := m\<rparr>))"

definition newest_event_first :: "NetworkEvent \<Rightarrow> NetworkEvent \<Rightarrow> int" where
  "newest_event_first a b = time_key (ev_createdAt b) - time_key (ev_createdAt a)"

definition getNetworkEvents :: "MemStorage \<Rightarrow> int option \<Rightarrow> NetworkEvent list" where
  "getNetworkEvents s limit =
     (let events = js_sort newest_event_first (map_values (networkEvents s))
      in case limit of
           None \<Rightarrow> events
         | Some l \<Rightarrow> if l = 0 then events else js_slice0 events l)"

definition getNetworkEvent :: "MemStorage \<Rightarrow> string \<Rightarrow> NetworkEvent option" where
  "getNetworkEvent s i = map_get (networkEvents s) i"

definition createNetworkEvent ::
  "MemStorage \<Rightarrow> string \<Rightarrow> int \<Rightarrow> InsertNetworkEvent \<Rightarrow> NetworkEvent \<times> MemStorage" where
  "createNetworkEvent s uuid now event =
     (let networkEvent = \<lparr>ev_id = uuid, ev_eventType = ie_eventType event,
            ev_severity = ie_severity event, ev_message = ie_message event,
            ev_source = string_or_null (ie_source event),
            ev_metadata = json_or_null (ie_metadata event),
            ev_resolved = bool_or_null (ie_resolved event),
            ev_createdAt = Some now\<rparr>
      in (networkEvent, s\<lparr>networkEvents := map_set (networkEvents s) uuid networkEvent\<rparr>))"

text \<open>The object spread \<open>{ ...existing, ...event }\<close> of \<open>updateNetworkEvent\<close>.\<close>

definition spread_event :: "NetworkEvent \<Rightarrow> NetworkEventPatch \<Rightarrow> NetworkEvent" where
  "spread_event existing event =
     existing\<lparr>ev_eventType :=
         (case pe_eventType event of None \<Rightarrow> ev_eventType existing | Some v \<Rightarrow> v),
       ev_severity := (case pe_severity event of None \<Rightarrow> ev_severity existing | Some v \<Rightarrow> v),
       ev_message := (case pe_message event of None \<Rightarrow> ev_message existing | Some v \<Rightarrow> v),
       ev_source := (case pe_source event of None \<Rightarrow> ev_source existing | Some v \<Rightarrow> v),
       ev_metadata := (case pe_metadata event of None \<Rightarrow> ev_metadata existing | Some v \<Rightarrow> v),
       ev_resolved := (case pe_resolved event of None \<Rightarrow> ev_resolved existing | Some v \<Rightarrow> v)\<rparr>"

definition updateNetworkEvent ::
  "MemStorage \<Rightarrow> string \<Rightarrow> NetworkEventPatch \<Rightarrow> NetworkEvent option \<times> MemStorage" where
  "updateNetworkEvent s i event =
     (case map_get (networkEvents s) i of
        None \<Rightarrow> (None, s)
      | Some existing \<Rightarrow>
          (let updated = spread_event existing event
           in (Some updated, s\<lparr>networkEvents := map_set (networkEvents s) i updated\<rparr>)))"

text \<open>
  The interface \<open>IStorage\<close>: one constructor for each of its fifteen methods, with the
  arguments of the call and, for the creating methods, the identifier and the time drawn
  during the call.
\<close>

datatype storage_call =
    GetUser string
  | GetUserByUsername string
  | CreateUser string InsertUser
  | GetNetworkTools
  | GetNetworkTool string
  | CreateNetworkTool string int InsertNetworkTool
  | UpdateNetworkTool string NetworkToolPatch
  | GetToolResults "string option" "int option"
  | GetToolResult string
  | CreateToolResult string int InsertToolResult
  | DeleteToolResult string
  | GetNetworkEvents "int option"
  | GetNetworkEvent string
  | CreateNetworkEvent string int InsertNetworkEvent
  | UpdateNetworkEvent string NetworkEventPatch

text \<open>The store after a call.\<close>

fun storage_step :: "MemStorage \<Rightarrow> storage_call \<Rightarrow> MemStorage" where
  "storage_step s (GetUser i) = s"
| "storage_step s (GetUserByUsername n) = s"
| "storage_step s (CreateUser uuid ins) = snd (createUser s uuid ins)"
| "storage_step s GetNetworkTools = s"
| "storage_step s (GetNetworkTool i) = s"
| "storage_step s (CreateNetworkTool uuid now tool) = snd (createNetworkTool s uuid now tool)"
| "storage_step s (UpdateNetworkTool i tool) = snd (updateNetworkTool s i tool)"
| "storage_step s (GetToolResults toolName limit) = s"
| "storage_step s (GetToolResult i) = s"
| "storage_step s (CreateToolResult uuid now result) = snd (createToolResult s uuid now result)"
| "storage_step s (DeleteToolResult i) = snd (deleteToolResult s i)"
| "storage_step s (GetNetworkEvents limit) = s"
| "storage_step s (GetNetworkEvent i) = s"
| "storage_step s (CreateNetworkEvent uuid now event) = snd (createNetworkEvent s uuid now event)"
| "storage_step s (UpdateNetworkEvent i event) = snd (updateNetworkEvent s i event)"

definition storage_run :: "MemStorage \<Rightarrow> storage_call list \<Rightarrow> MemStorage" where
  "storage_run s calls = foldl storage_step s calls"

text \<open>
  \<open>randomUUID()\<close> returns an identifier that no earlier call returned: a creating call
  of tool results is admissible for the entry \<open>rid\<close> when the identifier it draws is
  not \<open>rid\<close>.
\<close>

fun draws_other_id :: "string \<Rightarrow> storage_call \<Rightarrow> bool" where
  "draws_other_id rid (CreateToolResult uuid now result) = (uuid \<noteq> rid)"
| "draws_other_id rid c = True"

text \<open>The results that \<open>getToolResults\<close> selects from: the stored values, filtered by name.\<close>

definition matching_results :: "MemStorage \<Rightarrow> string option \<Rightarrow> ToolResult list" where
  "matching_results s toolName =
     filter (\<lambda>r. case toolName of None \<Rightarrow> True | Some n \<Rightarrow> n = [] \<or> tr_toolName r = n)
       (map_values (toolResults s))"


section \<open>The route \<open>GET /api/results\<close> (server/routes.ts)\<close>

text \<open>
  \<open>parseInt(string)\<close> with no radix: leading white space is skipped, a sign is read, a
  prefix \<open>0x\<close> selects radix 16, and the longest prefix of digits is the value; with
  no digit the result is \<open>NaN\<close> (\<open>None\<close>). Strings are byte strings here, so the
  white space is the ASCII white space.
\<close>

definition is_js_space :: "char \<Rightarrow> bool" where
  "is_js_space c = (c \<in> set [CHR '' '', CHR 0x09, CHR 0x0A, CHR 0x0B, CHR 0x0C, CHR 0x0D])"

definition digit_val :: "char \<Rightarrow> nat option" where
  "digit_val c =
     (let n = (of_char c :: nat)
      in if 48 \<le> n \<and> n \<le> 57 then Some (n - 48)
         else if 97 \<le> n \<and> n \<le> 122 then Some (n - 87)
         else if 65 \<le> n \<and> n \<le> 90 then Some (n - 55)
         else None)"

definition radix_digit :: "nat \<Rightarrow> char \<Rightarrow> bool" where
  "radix_digit radix c = (case digit_val c of None \<Rightarrow> False | Some d \<Rightarrow> d < radix)"

definition digits_value :: "nat \<Rightarrow> string \<Rightarrow> nat" where
  "digits_value radix z =
     foldl (\<lambda>acc c. acc * radix + (case digit_val c of None \<Rightarrow> 0 | Some d \<Rightarrow> d)) 0 z"

definition parseInt :: "string \<Rightarrow> int option" where
  "parseInt str =
     (let s = dropWhile is_js_space str;
          neg = (take 1 s = ''-'');
          s = (if take 1 s = ''+'' \<or> take 1 s = ''-'' then drop 1 s else s);
          hex = (take 2 s = ''0x'' \<or> take 2 s = ''0X'');
          radix = (if hex then 16 else 10);
          s = (if hex then drop 2 s else s);
          z = takeWhile (radix_digit radix) s
      in if z = [] then None
         else Some ((if neg then - 1 else 1) * int (digits_value radix z)))"

text \<open>
  The handler of \<open>GET /api/results\<close>: the query parameters \<open>toolName\<close> and \<open>limit\<close>
  are strings when present; \<open>limit ? parseInt(limit) : undefined\<close>.
\<close>

definition get_results_route ::
  "MemStorage \<Rightarrow> string option \<Rightarrow> string option \<Rightarrow> ToolResult list" where
  "get_results_route s toolName limit =
     getToolResults s toolName
       (case limit of None \<Rightarrow> None | Some l \<Rightarrow> if l = [] then None else parseInt l)"

section \<open>Example stores\<close>

definition empty_storage :: MemStorage where
  "empty_storage = \<lparr>users = [], networkTools = [], toolResults = [], networkEvents = []\<rparr>"

definition insert_of :: "string \<Rightarrow> InsertToolResult" where
  "insert_of n = \<lparr>ir_toolName = n, ir_userId = None, ir_parameters = None,
     ir_results = None, ir_status = Some ''completed'', ir_executionTime = Some 5\<rparr>"

definition example_storage :: MemStorage where
  "example_storage =
     storage_run empty_storage
       [CreateToolResult ''id-a'' 1000 (insert_of ''ping''),
        CreateToolResult ''id-b'' 3000 (insert_of ''dns-lookup''),
        CreateToolResult ''id-c'' 2000 (insert_of ''ping'')]"

definition insert_event_of :: "string \<Rightarrow> InsertNetworkEvent" where
  "insert_event_of msg = \<lparr>ie_eventType = ''device_connected'', ie_severity = ''info'',
     ie_message = msg, ie_source = Some ''network_monitor'', ie_metadata = None,
     ie_resolved = Some False\<rparr>"

definition example_events :: MemStorage where
  "example_events =
     storage_run empty_storage
       [CreateNetworkEvent ''ev-1'' 100 (insert_event_of ''first''),
        CreateNetworkEvent ''ev-2'' 200 (insert_event_of ''second'')]"

definition resolve_patch :: NetworkEventPatch where
  "resolve_patch = \<lparr>pe_eventType = None, pe_severity = None, pe_message = None,
     pe_source = None, pe_metadata = None, pe_resolved = Some (Some True)\<rparr>"

definition later_calls :: "storage_call list" where
  "later_calls =
     [CreateToolResult ''id-d'' 4000 (insert_of ''whois-lookup''),
      GetToolResults (Some ''ping'') (Some 1),
      DeleteToolResult ''id-b'',
      UpdateNetworkEvent ''id-a'' resolve_patch,
      GetToolResult ''id-a'']"

abbreviation created :: "ToolResult \<Rightarrow> int" where
  "created r \<equiv> time_key (tr_createdAt r)"

section \<open>The rate limiter of the serverless entry point (api/index.ts)\<close>

definition windowMs :: int where
  "windowMs = 60 * 1000"

definition maxReq :: int where
  "maxReq = 60"

record bucket =
  bk_count :: int
  bk_windowStart :: int

text \<open>
  \<open>ipToHits\<close> is a plain object used as a dictionary; its own properties are the
  buckets.
\<close>

type_synonym hits = "string \<Rightarrow> bucket option"

text \<open>
  A plain object inherits the properties of \<open>Object.prototype\<close>. For a key that names
  one of them and has no bucket of its own, \<open>ipToHits[ip]\<close> is the inherited value (a
  function, or the prototype itself for \<open>__proto__\<close>), which is truthy and has neither
  \<open>count\<close> nor \<open>windowStart\<close>.
\<close>

definition object_prototype_keys :: "string list" where
  "object_prototype_keys =
     [''constructor'', ''__defineGetter__'', ''__defineSetter__'', ''hasOwnProperty'',
      ''__lookupGetter__'', ''__lookupSetter__'', ''isPrototypeOf'', ''propertyIsEnumerable'',
      ''toString'', ''valueOf'', ''__proto__'', ''toLocaleString'']"

text \<open>What the middleware reads of a request.\<close>

record http_request =
  x_forwarded_for :: "string option"
  remoteAddress :: "string option"

definition js_trim :: "string \<Rightarrow> string" where
  "js_trim s = rev (dropWhile is_js_space (rev (dropWhile is_js_space s)))"

text \<open>
  \<open>headers["x-forwarded-for"]?.split(",")[0]?.trim() || socket.remoteAddress || "unknown"\<close>
\<close>

definition client_ip :: "http_request \<Rightarrow> string" where
  "client_ip req =
     (let forwarded = (case x_forwarded_for req of
                         None \<Rightarrow> []
                       | Some h \<Rightarrow> js_trim (takeWhile (\<lambda>c. c \<noteq> CHR '','') h))
      in if forwarded \<noteq> [] then forwarded
         else case remoteAddress req of
                None \<Rightarrow> ''unknown''
              | Some a \<Rightarrow> if a = [] then ''unknown'' else a)"

text \<open>\<open>Next\<close>: the request is passed on to the routes; \<open>TooManyRequests\<close>: HTTP 429.\<close>

datatype outcome = Next | TooManyRequests

text \<open>
  The middleware, at time \<open>now = Date.now()\<close>. For an inherited key the arithmetic is on
  \<open>undefined\<close>: \<open>now - undefined\<close> and \<open>undefined + 1\<close> are \<open>NaN\<close>, both comparisons
  are false, the request is passed on, and no bucket is stored under the key.
\<close>

definition rate_limiter :: "hits \<Rightarrow> http_request \<Rightarrow> int \<Rightarrow> outcome \<times> hits" where
  "rate_limiter ipToHits req now =
     (let ip = client_ip req
      in if ip \<in> set object_prototype_keys then (Next, ipToHits)
         else
           let bucket = (case ipToHits ip of
                           None \<Rightarrow> \<lparr>bk_count = 0, bk_windowStart = now\<rparr>
                         | Some b \<Rightarrow> b);
               bucket = (if now - bk_windowStart bucket > windowMs
                         then \<lparr>bk_count = 0, bk_windowStart = now\<rparr> else bucket);
               bucket = bucket\<lparr>bk_count := bk_count bucket + 1\<rparr>
           in (if bk_count bucket > maxReq then TooManyRequests else Next,
               ipToHits(ip \<mapsto> bucket)))"

text \<open>The outcomes of a sequence of requests, each with the time of its arrival.\<close>

fun run_limiter :: "hits \<Rightarrow> (http_request \<times> int) list \<Rightarrow> outcome list" where
  "run_limiter ipToHits [] = []"
| "run_limiter ipToHits ((req, now) # reqs) =
     (let (out, ipToHits') = rate_limiter ipToHits req now
      in out # run_limiter ipToHits' reqs)"

text \<open>The outcomes of the requests of one client, in order of arrival.\<close>

definition outcomes_of ::
  "string \<Rightarrow> (http_request \<times> int) list \<Rightarrow> outcome list \<Rightarrow> outcome list" where
  "outcomes_of ip reqs outs =
     map snd (filter (\<lambda>(r, out). client_ip (fst r) = ip) (zip reqs outs))"

text \<open>
  A request at time \<open>now\<close> opens a window for its client when the client has no bucket
  or the window of its bucket is over.
\<close>

definition opens_window :: "hits \<Rightarrow> string \<Rightarrow> int \<Rightarrow> bool" where
  "opens_window ipToHits ip now =
     (case ipToHits ip of None \<Rightarrow> True | Some b \<Rightarrow> now - bk_windowStart b > windowMs)"

text \<open>
  The later requests of the client fall in the window opened at \<open>start\<close>: the middleware
  does not reset the bucket for them.
\<close>

definition in_window :: "string \<Rightarrow> int \<Rightarrow> http_request \<times> int \<Rightarrow> bool" where
  "in_window ip start r = (client_ip (fst r) \<noteq> ip \<or> snd r - start \<le> windowMs)"

definition request_from :: "string \<Rightarrow> http_request" where
  "request_from a = \<lparr>x_forwarded_for = Some a, remoteAddress = None\<rparr>"

definition burst_rest :: "(http_request \<times> int) list" where
  "burst_rest = replicate 60 (request_from ''203.0.113.7, 10.0.0.1'', 1500)
           @ [(request_from ''198.51.100.2'', 1600), (request_from ''203.0.113.7'', 61500)]"

section \<open>Tool handlers (server/routes.ts)\<close>

text \<open>
  A handler answers with \<open>res.json(toolResult)\<close> (HTTP 200), with
  \<open>res.status(400).json({ message })\<close>, or, from its \<open>catch\<close>, with
  \<open>res.status(500).json({ message, error })\<close>. On success it stores its result object
  as the \<open>results\<close> of a new tool result (\<open>createToolResult\<close>) and sends the stored
  envelope; the model returns the result object.
\<close>

datatype 'a response = Json 'a | BadRequest string | ServerError string

fun status_code :: "'a response \<Rightarrow> nat" where
  "status_code (Json r) = 200"
| "status_code (BadRequest m) = 400"
| "status_code (ServerError m) = 500"

text \<open>
  A number that may be \<open>NaN\<close> (\<open>None\<close>); arithmetic on \<open>NaN\<close> gives \<open>NaN\<close>. The
  finite values are exact rationals: the doubles of the source compute the values of the
  subnet calculator without rounding for prefix lengths from 0 to 32 and up to \<open>2^22\<close>
  subnets.
\<close>

type_synonym js_number = "rat option"







text \<open>\<open>String.prototype.split(sep)\<close> for a one-character separator, and \<open>join\<close>.\<close>

fun js_split :: "char \<Rightarrow> string \<Rightarrow> string list" where
  "js_split sep [] = [[]]"
| "js_split sep (c # cs) =
     (if c = sep then [] # js_split sep cs
      else (case js_split sep cs of [] \<Rightarrow> [[c]] | p # ps \<Rightarrow> (c # p) # ps))"

fun js_join :: "string \<Rightarrow> string list \<Rightarrow> string" where
  "js_join sep [] = []"
| "js_join sep [p] = p"
| "js_join sep (p # ps) = p @ sep @ js_join sep ps"

subsection \<open>Subnet calculator: \<open>POST /api/tools/subnet-calculate\<close>\<close>











subsection \<open>What a handler does on the network\<close>

text \<open>
  The network calls of a handler, in the order in which it makes them: the spawn of a
  subprocess (\<open>execFile(file, args)\<close>), the connect of a socket
  (\<open>socket.connect(port, host)\<close>) and a resolver call (\<open>resolver.resolve\<dots>(domain)\<close>,
  with the record type). A handler returns its response and its network calls.
\<close>

datatype net_call =
    ExecFile string "string list"
  | SocketConnect string int
  | Resolve string string

subsection \<open>Port scanner: \<open>POST /api/tools/port-scan\<close>\<close>

text \<open>
  The body: \<open>host\<close> is a string when present, \<open>startPort\<close> and \<open>endPort\<close> are
  integers and default to 1 and 1000, \<open>scanType\<close> (read by the simulating handler only)
  defaults to \<open>"tcp"\<close>.
\<close>

record scan_request =
  ps_host :: "string option"
  ps_startPort :: "int option"
  ps_endPort :: "int option"
  ps_scanType :: "string option"

record open_port =
  port :: int
  protocol :: string
  state :: string
  service :: "string option"

record scan_results =
  sr_host :: "string option"
  openPorts :: "open_port list"
  totalScanned :: int
  openCount :: nat

definition serviceMap :: "(int \<times> string) list" where
  "serviceMap =
     [(22, ''SSH''), (23, ''Telnet''), (53, ''DNS''), (80, ''HTTP''), (110, ''POP3''),
      (143, ''IMAP''), (443, ''HTTPS''), (993, ''IMAPS''), (995, ''POP3S''),
      (3389, ''RDP''), (8080, ''HTTP-Alt''), (8443, ''HTTPS-Alt'')]"

text \<open>
  What happens to one socket after \<open>connect\<close>: the \<open>connect\<close> event or the \<open>error\<close>
  event fires after so many milliseconds, or neither ever does.
\<close>

datatype probe_result = Connected nat | Failed nat | NoAnswer

text \<open>
  \<open>tryConnect\<close> records the port when the \<open>connect\<close> event fires before the timer of
  750 ms has set \<open>done\<close>.
\<close>

definition connect_time :: "probe_result \<Rightarrow> nat option" where
  "connect_time r = (case r of Connected t \<Rightarrow> if t < 750 then Some t else None | _ \<Rightarrow> None)"

text \<open>
  One batch, \<open>await Promise.all(batch.map(tryConnect))\<close>: the sockets of the batch are
  connected together, and \<open>openPorts.push\<close> runs in the order in which the \<open>connect\<close>
  events fire (sockets that connect at the same time in the order of the batch).
\<close>

definition batch_opens :: "(int \<Rightarrow> probe_result) \<Rightarrow> int list \<Rightarrow> int list" where
  "batch_opens probe batch =
     sort_key (\<lambda>p. case connect_time (probe p) of None \<Rightarrow> 0 | Some t \<Rightarrow> t)
       (filter (\<lambda>p. connect_time (probe p) \<noteq> None) batch)"

text \<open>
  The loop \<open>for (i = 0; i < ports.length; i += concurrency)\<close> with
  \<open>ports.slice(i, i + concurrency)\<close>; \<open>concurrency\<close> is a positive constant in both
  handlers.
\<close>

function batches :: "nat \<Rightarrow> 'a list \<Rightarrow> 'a list list" where
  "batches concurrency ports =
     (if concurrency = 0 \<or> ports = [] then []
      else take concurrency ports # batches concurrency (drop concurrency ports))"
  by pat_completeness auto
termination
  by (relation "measure (\<lambda>(concurrency, ports). length ports)") auto

declare batches.simps [simp del]

text \<open>
  The scan after validation, shared by the handlers of \<open>registerRoutes\<close>
  (\<open>concurrency = 200\<close>) and \<open>attachRoutes\<close> (\<open>concurrency = 100\<close>).
\<close>

definition scan_ports ::
  "nat \<Rightarrow> (string \<Rightarrow> int \<Rightarrow> probe_result) \<Rightarrow> string \<Rightarrow> int \<Rightarrow> int
     \<Rightarrow> scan_results response \<times> net_call list" where
  "scan_ports concurrency probe host startPort endPort =
     (let ports = [startPort .. endPort];
          openPorts = concat (map (batch_opens (probe host)) (batches concurrency ports));
          results = map (\<lambda>p. \<lparr>port = p, protocol = ''TCP'', state = ''open'',
                                service = map_of serviceMap p\<rparr>) openPorts
      in (Json \<lparr>sr_host = Some host, openPorts = results,
                totalScanned = endPort - startPort + 1, openCount = length results\<rparr>,
          map (SocketConnect host) ports))"

text \<open>
  The handler of \<open>registerRoutes\<close> that scans. \<open>!host\<close> holds for a missing and for
  an empty \<open>host\<close>.
\<close>

definition port_scan ::
  "(string \<Rightarrow> int \<Rightarrow> probe_result) \<Rightarrow> scan_request \<Rightarrow> scan_results response \<times> net_call list" where
  "port_scan probe body =
     (let startPort = (case ps_startPort body of None \<Rightarrow> 1 | Some p \<Rightarrow> p);
          endPort = (case ps_endPort body of None \<Rightarrow> 1000 | Some p \<Rightarrow> p)
      in case string_or_null (ps_host body) of
           None \<Rightarrow> (BadRequest ''host is required'', [])
         | Some host \<Rightarrow>
             if startPort < 1 \<or> endPort > 65535 \<or> startPort > endPort
             then (BadRequest ''invalid port range'', [])
             else scan_ports 200 probe host startPort endPort)"

text \<open>The handler of \<open>attachRoutes\<close>, with \<open>maxRange = 2000\<close>.\<close>

definition port_scan_attach ::
  "(string \<Rightarrow> int \<Rightarrow> probe_result) \<Rightarrow> scan_request \<Rightarrow> scan_results response \<times> net_call list" where
  "port_scan_attach probe body =
     (let startPort = (case ps_startPort body of None \<Rightarrow> 1 | Some p \<Rightarrow> p);
          endPort = (case ps_endPort body of None \<Rightarrow> 1000 | Some p \<Rightarrow> p);
          maxRange = 2000
      in case string_or_null (ps_host body) of
           None \<Rightarrow> (BadRequest ''host is required'', [])
         | Some host \<Rightarrow>
             if startPort < 1 \<or> endPort > 65535 \<or> startPort > endPort
                \<or> endPort - startPort + 1 > maxRange
             then (BadRequest ''invalid or too large port range (max 2000)'', [])
             else scan_ports 100 probe host startPort endPort)"

text \<open>\<open>String.prototype.toUpperCase\<close> on ASCII letters.\<close>

definition js_upper :: "string \<Rightarrow> string" where
  "js_upper s =
     map (\<lambda>c. case map_of (zip ''abcdefghijklmnopqrstuvwxyz'' ''ABCDEFGHIJKLMNOPQRSTUVWXYZ'') c of
                None \<Rightarrow> c | Some u \<Rightarrow> u) s"

text \<open>
  The simulating handler of \<open>registerRoutes\<close>: no validation and no socket.
  \<open>random p\<close> is the value that \<open>Math.random()\<close> returns when the filter reaches the
  common port \<open>p\<close>.
\<close>

definition commonPorts :: "int list" where
  "commonPorts = [22, 23, 53, 80, 110, 143, 443, 993, 995, 3389, 8080, 8443]"

definition port_scan_mock ::
  "(int \<Rightarrow> rat) \<Rightarrow> scan_request \<Rightarrow> scan_results response \<times> net_call list" where
  "port_scan_mock random body =
     (let startPort = (case ps_startPort body of None \<Rightarrow> 1 | Some p \<Rightarrow> p);
          endPort = (case ps_endPort body of None \<Rightarrow> 1000 | Some p \<Rightarrow> p);
          scanType = (case ps_scanType body of None \<Rightarrow> ''tcp'' | Some t \<Rightarrow> t);
          openPorts = filter (\<lambda>p. p \<ge> startPort \<and> p \<le> endPort \<and> random p > 7 / 10)
                        commonPorts;
          results = map (\<lambda>p. \<lparr>port = p, protocol = js_upper scanType, state = ''open'',
                                service = (case map_of serviceMap p of
                                             None \<Rightarrow> Some ''Unknown'' | Some n \<Rightarrow> Some n)\<rparr>)
                        openPorts
      in (Json \<lparr>sr_host = ps_host body, openPorts = results,
                totalScanned = endPort - startPort + 1, openCount = length results\<rparr>, []))"

text \<open>Example requests and networks.\<close>

definition example_probe :: "string \<Rightarrow> int \<Rightarrow> probe_result" where
  "example_probe host p =
     (if p = 22 then Connected 40 else if p = 80 then Connected 12
      else if p = 81 then Connected 900 else if p = 443 then Connected 30
      else if p = 79 then Failed 3 else NoAnswer)"

definition example_scan_request :: scan_request where
  "example_scan_request =
     \<lparr>ps_host = Some ''scanme.example'', ps_startPort = Some 78, ps_endPort = Some 82,
      ps_scanType = None\<rparr>"

definition wide_scan_request :: scan_request where
  "wide_scan_request =
     \<lparr>ps_host = Some ''scanme.example'', ps_startPort = Some 1, ps_endPort = Some 65535,
      ps_scanType = None\<rparr>"

subsection \<open>Ping: \<open>POST /api/tools/ping\<close>\<close>

text \<open>
  The body: \<open>host\<close> is any JSON value when present, \<open>count\<close> and \<open>timeout\<close> are
  integers and default to 4 and 5000.
\<close>

record ping_request =
  pg_host :: "json option"
  pg_count :: "int option"
  pg_timeout :: "int option"

record ping_entry =
  pn_sequence :: nat
  pn_host :: string
  pn_time :: js_number
  pn_ttl :: js_number
  pn_bytes :: js_number

record ping_statistics =
  sent :: int
  received :: nat
  lost :: int
  lossPercent :: "int option"
  avgTime :: "int option"
  minTime :: "rat option"
  maxTime :: "rat option"

record ping_results =
  pings :: "ping_entry list"
  statistics :: ping_statistics

text \<open>\<open>String(n)\<close> for an integer.\<close>

fun string_of_nat :: "nat \<Rightarrow> string" where
  "string_of_nat n =
     (if n < 10 then [''0123456789'' ! n]
      else string_of_nat (n div 10) @ [''0123456789'' ! (n mod 10)])"

declare string_of_nat.simps [simp del]

definition string_of_int :: "int \<Rightarrow> string" where
  "string_of_int i =
     (if i < 0 then CHR ''-'' # string_of_nat (nat (- i)) else string_of_nat (nat i))"

text \<open>
  The regular expressions of the parser, all with the flag \<open>i\<close>. \<open>regex_search\<close> tries
  a pattern at every position from the left and returns the first match. Strings are
  byte strings, so the case folding is that of the ASCII letters.
\<close>

definition lower_ascii :: "char \<Rightarrow> char" where
  "lower_ascii c =
     (case map_of (zip ''ABCDEFGHIJKLMNOPQRSTUVWXYZ'' ''abcdefghijklmnopqrstuvwxyz'') c of
        None \<Rightarrow> c | Some l \<Rightarrow> l)"

definition ci_prefix :: "string \<Rightarrow> string \<Rightarrow> bool" where
  "ci_prefix pat s = (length pat \<le> length s \<and> map lower_ascii (take (length pat) s) = pat)"

fun regex_search :: "(string \<Rightarrow> 'a option) \<Rightarrow> string \<Rightarrow> 'a option" where
  "regex_search matcher [] = matcher []"
| "regex_search matcher (c # cs) =
     (case matcher (c # cs) of Some r \<Rightarrow> Some r | None \<Rightarrow> regex_search matcher cs)"

definition is_digit :: "char \<Rightarrow> bool" where
  "is_digit c = (c \<in> set ''0123456789'')"

text \<open>\<open>time[=<]\<close> at the start of \<open>s\<close>: the rest of \<open>s\<close> after the match.\<close>

definition at_time :: "string \<Rightarrow> string option" where
  "at_time s =
     (if ci_prefix ''time'' s \<and> (take 1 (drop 4 s) = ''='' \<or> take 1 (drop 4 s) = ''<'')
      then Some (drop 5 s) else None)"

text \<open>\<open>/time[=<]/i.test(l)\<close> and \<open>/Average/i.test(l)\<close>.\<close>

definition test_time :: "string \<Rightarrow> bool" where
  "test_time l = (regex_search at_time l \<noteq> None)"

definition test_average :: "string \<Rightarrow> bool" where
  "test_average l =
     (regex_search (\<lambda>s. if ci_prefix ''average'' s then Some () else None) l \<noteq> None)"

text \<open>The group of \<open>line.match(/time[=<]([0-9.]+)/i)\<close>, when the line matches.\<close>

definition match_time :: "string \<Rightarrow> string option" where
  "match_time l =
     regex_search
       (\<lambda>s. case at_time s of
               None \<Rightarrow> None
             | Some rest \<Rightarrow>
                 (let cap = takeWhile (\<lambda>c. is_digit c \<or> c = CHR ''.'') rest
                  in if cap = [] then None else Some cap)) l"

text \<open>The group of \<open>/ttl=([0-9]+)/i\<close> and \<open>/bytes=([0-9]+)/i\<close> (\<open>key\<close> is \<open>ttl=\<close>, \<open>bytes=\<close>).\<close>

definition match_digits_after :: "string \<Rightarrow> string \<Rightarrow> string option" where
  "match_digits_after key l =
     regex_search
       (\<lambda>s. if ci_prefix key s
             then (let cap = takeWhile is_digit (drop (length key) s)
                   in if cap = [] then None else Some cap)
             else None) l"

text \<open>
  \<open>Number(s)\<close> for a non-empty string of digits and dots: digits with at most one dot
  and at least one digit are a decimal literal, anything else is \<open>NaN\<close>.
\<close>

definition js_Number :: "string \<Rightarrow> js_number" where
  "js_Number s =
     (let whole = takeWhile is_digit s; rest = dropWhile is_digit s
      in if rest = [] then Some (of_nat (digits_value 10 whole))
         else (let frac = drop 1 rest
               in if list_all is_digit frac \<and> (whole \<noteq> [] \<or> frac \<noteq> [])
                  then Some (of_nat (digits_value 10 whole)
                             + of_nat (digits_value 10 frac) / 10 ^ length frac)
                  else None))"

text \<open>
  The parser: the non-empty lines of \<open>stdout\<close>, those with a time or an average, and of
  these the ones with a time, numbered from 1. A missing group gives \<open>null\<close>, which is
  \<open>None\<close> like \<open>NaN\<close>.
\<close>

definition parse_ping :: "string \<Rightarrow> string \<Rightarrow> ping_entry list" where
  "parse_ping host stdout =
     (let lines = filter (\<lambda>l. l \<noteq> []) (js_split (CHR 0x0A) stdout);
          pingLines = filter (\<lambda>l. test_time l \<or> test_average l) lines
      in map (\<lambda>(idx, line).
                \<lparr>pn_sequence = idx + 1, pn_host = host,
                 pn_time = (case match_time line of None \<Rightarrow> None | Some c \<Rightarrow> js_Number c),
                 pn_ttl = (case match_digits_after ''ttl='' line of
                             None \<Rightarrow> None | Some c \<Rightarrow> js_Number c),
                 pn_bytes = (case match_digits_after ''bytes='' line of
                               None \<Rightarrow> None | Some c \<Rightarrow> js_Number c)\<rparr>)
           (enumerate 0 (filter test_time pingLines)))"

text \<open>\<open>Math.round\<close> rounds to the nearest integer, a half towards \<open>+\<infinity>\<close>.\<close>

definition js_round :: "rat \<Rightarrow> int" where
  "js_round x = \<lfloor>x + 1 / 2\<rfloor>"

text \<open>
  \<open>Math.min(...xs)\<close> and \<open>Math.max(...xs)\<close> of a non-empty list (of an empty list they
  are the infinities, which the handlers do not compute: \<open>None\<close>).
\<close>

definition math_min :: "rat list \<Rightarrow> rat option" where
  "math_min xs = (case xs of [] \<Rightarrow> None | x # rest \<Rightarrow> Some (foldl min x rest))"

definition math_max :: "rat list \<Rightarrow> rat option" where
  "math_max xs = (case xs of [] \<Rightarrow> None | x # rest \<Rightarrow> Some (foldl max x rest))"

text \<open>
  The statistics. \<open>lossPercent\<close> divides by \<open>count\<close>: for \<open>count = 0\<close> the quotient is
  \<open>NaN\<close> (\<open>None\<close>) when nothing was received and \<open>-Infinity\<close> otherwise, which
  \<open>Math.max(0, _)\<close> turns into 0.
\<close>

definition ping_statistics_of :: "int \<Rightarrow> ping_entry list \<Rightarrow> ping_statistics" where
  "ping_statistics_of cnt results =
     (let times = filter (\<lambda>n. n > 0)
                    (map (\<lambda>r. case pn_time r of None \<Rightarrow> 0 | Some t \<Rightarrow> t) results);
          avg = (if times \<noteq> []
                 then Some (js_round (foldl (+) 0 times / of_nat (length times))) else None);
          len = int (length results)
      in \<lparr>sent = cnt, received = length results,
          lost = max 0 (cnt - len),
          lossPercent =
            (if cnt = 0 then (if len = 0 then None else Some 0)
             else Some (max 0 (js_round (of_int (cnt - len) / of_int cnt * 100)))),
          avgTime = avg,
          minTime = (if times \<noteq> [] then math_min times else None),
          maxTime = (if times \<noteq> [] then math_max times else None)\<rparr>)"

definition ping_report :: "string \<Rightarrow> int \<Rightarrow> string \<Rightarrow> ping_results" where
  "ping_report host cnt stdout =
     (let results = parse_ping host stdout
      in \<lparr>pings = results, statistics = ping_statistics_of cnt results\<rparr>)"

text \<open>
  The outside world of the handler: the platform, the outcome of
  \<open>execFile("ping", args, { timeout })\<close> (its \<open>stdout\<close>, or \<open>None\<close> when the promise
  rejects), and, for the fallback of \<open>attachRoutes\<close>, the outcome of the TCP connect of
  trial \<open>i\<close> (the milliseconds it took, or \<open>None\<close> on timeout or error).
\<close>

record ping_world =
  isWindows :: bool
  execPing :: "string list \<Rightarrow> string option"
  tcpConnect :: "string \<Rightarrow> int \<Rightarrow> nat \<Rightarrow> nat option"

definition ping_args :: "bool \<Rightarrow> string \<Rightarrow> int \<Rightarrow> int \<Rightarrow> string list" where
  "ping_args windows host cnt timeout =
     (if windows then [''-n'', string_of_int cnt, host]
      else [''-c'', string_of_int cnt, ''-w'',
            string_of_int \<lceil>(of_int timeout :: rat) / 1000\<rceil>, host])"

text \<open>
  The handler of \<open>registerRoutes\<close>: a rejected \<open>execFile\<close> is caught by the handler's
  \<open>catch\<close>, which answers 500.
\<close>

definition ping :: "ping_world \<Rightarrow> ping_request \<Rightarrow> ping_results response \<times> net_call list" where
  "ping w body =
     (let cnt = (case pg_count body of None \<Rightarrow> 4 | Some c \<Rightarrow> c);
          timeout = (case pg_timeout body of None \<Rightarrow> 5000 | Some t \<Rightarrow> t)
      in case pg_host body of
           Some (JStr host) \<Rightarrow>
             if host = [] then (BadRequest ''host is required'', [])
             else (let args = ping_args (isWindows w) host cnt timeout
                   in case execPing w args of
                        None \<Rightarrow> (ServerError ''Ping execution failed'', [ExecFile ''ping'' args])
                      | Some stdout \<Rightarrow>
                          (Json (ping_report host cnt stdout), [ExecFile ''ping'' args]))
         | _ \<Rightarrow> (BadRequest ''host is required'', []))"

text \<open>
  The fallback of \<open>attachRoutes\<close>: up to four TCP connects, to the ports 80 and 443 in
  turn; the samples are written as lines \<open>time=<ms> ms\<close> for the parser.
\<close>

definition tcp_fallback :: "ping_world \<Rightarrow> string \<Rightarrow> int \<Rightarrow> string \<times> net_call list" where
  "tcp_fallback w host cnt =
     (let ports = [80, 443];
          trials = nat (max 1 (min cnt 4));
          samples = concat (map (\<lambda>i. case tcpConnect w host (ports ! (i mod length ports)) i of
                                        None \<Rightarrow> [] | Some ms \<Rightarrow> [ms]) [0 ..< trials])
      in (js_join [CHR 0x0A] (map (\<lambda>ms. ''time='' @ string_of_nat ms @ '' ms'') samples),
          map (\<lambda>i. SocketConnect host (ports ! (i mod length ports))) [0 ..< trials]))"

definition ping_attach ::
  "ping_world \<Rightarrow> ping_request \<Rightarrow> ping_results response \<times> net_call list" where
  "ping_attach w body =
     (let cnt = (case pg_count body of None \<Rightarrow> 4 | Some c \<Rightarrow> c);
          timeout = (case pg_timeout body of None \<Rightarrow> 5000 | Some t \<Rightarrow> t)
      in case pg_host body of
           Some (JStr host) \<Rightarrow>
             if host = [] then (BadRequest ''host is required'', [])
             else (let args = ping_args (isWindows w) host cnt timeout
                   in case execPing w args of
                        Some stdout \<Rightarrow>
                          (Json (ping_report host cnt stdout), [ExecFile ''ping'' args])
                      | None \<Rightarrow>
                          (let (stdout, calls) = tcp_fallback w host cnt
                           in (Json (ping_report host cnt stdout),
                               ExecFile ''ping'' args # calls)))
         | _ \<Rightarrow> (BadRequest ''host is required'', []))"


subsection \<open>DNS lookup: \<open>POST /api/tools/dns-lookup\<close>\<close>

record dns_request =
  dn_domain :: "string option"
  dn_recordType :: "string option"

record dns_results =
  dr_domain :: string
  dr_recordType :: string
  dr_records :: json

text \<open>
  The handler of \<open>registerRoutes\<close> and of \<open>attachRoutes\<close> (the same code).
  \<open>resolve recordType domain\<close> is the outcome of the resolver call for the record type:
  the records, or \<open>None\<close> when the promise rejects.
\<close>

definition dns_lookup ::
  "(string \<Rightarrow> string \<Rightarrow> json option) \<Rightarrow> dns_request \<Rightarrow> dns_results response \<times> net_call list" where
  "dns_lookup resolve body =
     (let recordType = (case dn_recordType body of None \<Rightarrow> ''A'' | Some t \<Rightarrow> t)
      in case string_or_null (dn_domain body) of
           None \<Rightarrow> (BadRequest ''domain is required'', [])
         | Some domain \<Rightarrow>
             if recordType \<in> set [''A'', ''AAAA'', ''MX'', ''TXT'', ''CNAME'', ''NS'', ''SRV'', ''SOA'']
             then (case resolve recordType domain of
                     None \<Rightarrow> (ServerError ''DNS lookup failed'', [Resolve recordType domain])
                   | Some records \<Rightarrow>
                       (Json \<lparr>dr_domain = domain, dr_recordType = recordType,
                              dr_records = records\<rparr>,
                        [Resolve recordType domain]))
             else (BadRequest (''unsupported recordType '' @ recordType), []))"

subsection \<open>The client's validators (client/src/utils/networkUtils.ts)\<close>

text \<open>
  \<open>validateDomain\<close>: labels separated by dots, each of 1 to 63 letters, digits and
  hyphens, beginning and ending with a letter or a digit (the regular expression
  \<open>^L(\.L)*$\<close> with \<open>L = [a-zA-Z0-9]([a-zA-Z0-9-]{0,61}[a-zA-Z0-9])?\<close>).
\<close>

definition is_alnum :: "char \<Rightarrow> bool" where
  "is_alnum c = (is_digit c \<or> lower_ascii c \<in> set ''abcdefghijklmnopqrstuvwxyz'')"

definition valid_label :: "string \<Rightarrow> bool" where
  "valid_label l =
     (l \<noteq> [] \<and> length l \<le> 63 \<and> is_alnum (hd l) \<and> is_alnum (last l)
      \<and> list_all (\<lambda>c. is_alnum c \<or> c = CHR ''-'') l)"

definition validateDomain :: "string \<Rightarrow> bool" where
  "validateDomain domain = list_all valid_label (js_split CHR ''.'' domain)"

text \<open>
  \<open>validateIPAddress\<close>: four parts separated by dots, each of one to three digits with
  a value of at most 255 (\<open>25[0-5]|2[0-4][0-9]|[01]?[0-9][0-9]?\<close>).
\<close>

definition valid_octet :: "string \<Rightarrow> bool" where
  "valid_octet p =
     (p \<noteq> [] \<and> length p \<le> 3 \<and> list_all is_digit p \<and> digits_value 10 p \<le> 255)"

definition validateIPAddress :: "string \<Rightarrow> bool" where
  "validateIPAddress ip =
     (let parts = js_split CHR ''.'' ip in length parts = 4 \<and> list_all valid_octet parts)"

definition validatePort :: "int \<Rightarrow> bool" where
  "validatePort p = (p \<ge> 1 \<and> p \<le> 65535)"

text \<open>Example requests and worlds.\<close>

definition linux_ping_output :: string where
  "linux_ping_output =
     js_join [CHR 0x0A]
       [''PING example.com'',
        ''seq=1 ttl=56 time=11.6 ms'',
        ''seq=2 ttl=56 time=12.9 ms'',
        ''seq=4 ttl=56 Time=14 ms'',
        [],
        ''3 received, time 3005ms'']"

definition example_world :: ping_world where
  "example_world =
     \<lparr>isWindows = False,
      execPing = (\<lambda>args. if last args = ''example.com'' then Some linux_ping_output else None),
      tcpConnect = (\<lambda>host p i. if p = 80 then Some (20 + i) else None)\<rparr>"


definition bad_host_request :: ping_request where
  "bad_host_request =
     \<lparr>pg_host = Some (JStr ''not a host!''), pg_count = None, pg_timeout = None\<rparr>"

definition bad_domain_request :: dns_request where
  "bad_domain_request = \<lparr>dn_domain = Some ''not a domain!'', dn_recordType = None\<rparr>"

definition no_host_request :: ping_request where
  "no_host_request = \<lparr>pg_host = None, pg_count = None, pg_timeout = None\<rparr>"

definition offline_world :: ping_world where
  "offline_world =
     \<lparr>isWindows = False, execPing = (\<lambda>args. None), tcpConnect = (\<lambda>host p i. None)\<rparr>"

definition failing_resolver :: "string \<Rightarrow> string \<Rightarrow> json option" where
  "failing_resolver recordType domain = None"

definition no_domain_request :: dns_request where
  "no_domain_request = \<lparr>dn_domain = Some [], dn_recordType = Some ''MX''\<rparr>"

definition reversed_scan_request :: scan_request where
  "reversed_scan_request =
     \<lparr>ps_host = Some ''scanme.example'', ps_startPort = Some 90, ps_endPort = Some 80,
      ps_scanType = None\<rparr>"

section \<open>Properties of the library functions\<close>

lemma mset_insert_cmp: "mset (insert_cmp cmp x ys) = add_mset x (mset ys)"
  by (induction ys) auto

lemma mset_foldl_insert:
  "mset (foldl (\<lambda>acc x. insert_cmp cmp x acc) acc xs) = mset acc + mset xs"
  by (induction xs arbitrary: acc) (auto simp: mset_insert_cmp)

lemma mset_js_sort: "mset (js_sort cmp xs) = mset xs"
  by (simp add: js_sort_def mset_foldl_insert)

lemma length_js_sort: "length (js_sort cmp xs) = length xs"
  using mset_js_sort [of cmp xs] by (metis size_mset)

lemma set_insert_cmp: "set (insert_cmp cmp x ys) = insert x (set ys)"
  by (induction ys) auto

lemma sorted_insert_cmp:
  assumes "sorted_wrt (\<lambda>a b. k b \<le> (k a :: int)) ys"
  shows "sorted_wrt (\<lambda>a b. k b \<le> k a) (insert_cmp (\<lambda>a b. k b - k a) x ys)"
  using assms by (induction ys) (auto simp: set_insert_cmp)

lemma sorted_foldl_insert:
  "sorted_wrt (\<lambda>a b. k b \<le> (k a :: int)) acc \<Longrightarrow>
   sorted_wrt (\<lambda>a b. k b \<le> k a)
     (foldl (\<lambda>acc x. insert_cmp (\<lambda>a b. k b - k a) x acc) acc xs)"
  by (induction xs arbitrary: acc) (auto simp: sorted_insert_cmp)

lemma sorted_js_sort:
  "sorted_wrt (\<lambda>a b. k b \<le> (k a :: int)) (js_sort (\<lambda>a b. k b - k a) xs)"
  by (simp add: js_sort_def sorted_foldl_insert)

lemma map_of_map_set: "map_of (map_set m k v) k' = (if k' = k then Some v else map_of m k')"
  by (induction m) auto

lemma map_of_filter_other:
  "map_of (filter (\<lambda>kv. fst kv \<noteq> k) m) k' = (if k' = k then None else map_of m k')"
  by (induction m) auto

lemma keys_map_set: "map_of m k \<noteq> None \<Longrightarrow> map fst (map_set m k v) = map fst m"
  by (induction m) auto

lemma parseInt_zero: "parseInt ''0'' = Some 0"
  by (simp add: parseInt_def is_js_space_def radix_digit_def digit_val_def digits_value_def)

section \<open>The result store\<close>

lemma newest_first_eq: "newest_first = (\<lambda>a b. created b - created a)"
  by (simp add: newest_first_def fun_eq_iff)

lemma sorted_newest_first:
  "sorted_wrt (\<lambda>a b. created b \<le> created a) (js_sort newest_first xs)"
  unfolding newest_first_eq by (rule sorted_js_sort)

lemma matching_results_alt:
  "matching_results s toolName =
     (case toolName of
        None \<Rightarrow> map_values (toolResults s)
      | Some n \<Rightarrow> if n = [] then map_values (toolResults s)
                 else filter (\<lambda>result. tr_toolName result = n) (map_values (toolResults s)))"
  by (simp add: matching_results_def split: option.splits)

lemma getToolResults_alt:
  "getToolResults s toolName limit =
     (case limit of
        None \<Rightarrow> js_sort newest_first (matching_results s toolName)
      | Some l \<Rightarrow> if l = 0 then js_sort newest_first (matching_results s toolName)
                 else js_slice0 (js_sort newest_first (matching_results s toolName)) l)"
  by (simp add: getToolResults_def matching_results_alt Let_def split: option.splits)

lemma take_most_recent:
  assumes "sorted_wrt (\<lambda>a b. k b \<le> (k a :: int)) ys" and "mset ys = mset sel"
  shows "mset (take n ys) \<subseteq># mset sel"
    and "\<forall>x \<in># mset sel - mset (take n ys). \<forall>y \<in> set (take n ys). k x \<le> k y"
proof -
  have parts: "mset sel = mset (take n ys) + mset (drop n ys)"
    using assms(2) by (metis append_take_drop_id mset_append)
  show "mset (take n ys) \<subseteq># mset sel"
    by (simp add: parts)
  have rest: "mset sel - mset (take n ys) = mset (drop n ys)"
    by (simp add: parts)
  have "sorted_wrt (\<lambda>a b. k b \<le> k a) (take n ys @ drop n ys)"
    using assms(1) by simp
  then have "\<forall>y \<in> set (take n ys). \<forall>x \<in> set (drop n ys). k x \<le> k y"
    unfolding sorted_wrt_append by blast
  then show "\<forall>x \<in># mset sel - mset (take n ys). \<forall>y \<in> set (take n ys). k x \<le> k y"
    unfolding rest by auto
qed

text \<open>
  Claim C2. For every store and every positive limit \<open>L\<close>, \<open>getToolResults(toolName, L)\<close>
  returns \<open>min(N', L)\<close> results, where \<open>N'\<close> is the number of stored results that pass
  the optional \<open>toolName\<close> filter; they are in descending order of \<open>createdAt\<close> (the
  sort key, \<open>0\<close> for a missing date), they are among the filtered results, and every
  filtered result that is not returned is at most as recent as every returned one.
\<close>

theorem getToolResults_most_recent:
  assumes "0 < L"
  shows "let out = getToolResults s toolName (Some L); sel = matching_results s toolName
         in length out = min (length sel) (nat L)
            \<and> sorted_wrt (\<lambda>a b. created b \<le> created a) out
            \<and> mset out \<subseteq># mset sel
            \<and> (\<forall>x \<in># mset sel - mset out. \<forall>y \<in> set out. created x \<le> created y)"
proof -
  define sel where "sel = matching_results s toolName"
  define ys where "ys = js_sort newest_first sel"
  have out: "getToolResults s toolName (Some L) = take (nat L) ys"
    using assms by (simp add: getToolResults_alt js_slice0_def ys_def sel_def)
  have srt: "sorted_wrt (\<lambda>a b. created b \<le> created a) ys"
    unfolding ys_def by (rule sorted_newest_first)
  have perm: "mset ys = mset sel"
    unfolding ys_def by (rule mset_js_sort)
  have len: "length (take (nat L) ys) = min (length sel) (nat L)"
    by (simp add: ys_def length_js_sort)
  have srt': "sorted_wrt (\<lambda>a b. created b \<le> created a) (take (nat L) ys)"
    using srt by (metis append_take_drop_id sorted_wrt_append)
  show ?thesis
    unfolding Let_def out sel_def [symmetric]
    using len srt' take_most_recent [OF srt perm, of "nat L"] by blast
qed

theorem getToolResults_most_recent_witness:
  "(0::int) < 2
   \<and> map tr_id (getToolResults example_storage None (Some 2)) = [''id-b'', ''id-c'']
   \<and> (let out = getToolResults example_storage None (Some 2);
           sel = matching_results example_storage None
       in length out = min (length sel) (nat 2)
          \<and> sorted_wrt (\<lambda>a b. created b \<le> created a) out
          \<and> mset out \<subseteq># mset sel
          \<and> (\<forall>x \<in># mset sel - mset out. \<forall>y \<in> set out. created x \<le> created y))"
proof -
  have "map tr_id (getToolResults example_storage None (Some 2)) = [''id-b'', ''id-c'']"
    by (simp add: getToolResults_def example_storage_def storage_run_def empty_storage_def
        createToolResult_def insert_of_def map_values_def Let_def js_sort_def js_slice0_def
        newest_first_def time_key_def string_or_null_def json_or_null_def int_or_null_def)
  then show ?thesis
    using getToolResults_most_recent [of 2 example_storage None] by simp
qed

text \<open>
  Claim C9. A limit of \<open>0\<close> is falsy, so \<open>getToolResults\<close> does not slice: it returns
  what it returns with no limit, that is, all the filtered results. The route
  \<open>GET /api/results?limit=0\<close> passes \<open>parseInt("0") = 0\<close> and returns the full list as
  well.
\<close>

theorem getToolResults_limit_zero_ignored:
  "getToolResults s toolName (Some 0) = getToolResults s toolName None
   \<and> get_results_route s toolName (Some ''0'') = getToolResults s toolName None
   \<and> mset (getToolResults s toolName (Some 0)) = mset (matching_results s toolName)
   \<and> length (get_results_route s toolName (Some ''0'')) = length (matching_results s toolName)"
  by (simp add: get_results_route_def parseInt_zero getToolResults_alt mset_js_sort
      length_js_sort)

lemma storage_step_keeps_result:
  assumes "getToolResult s rid = Some r" and "c \<noteq> DeleteToolResult rid"
    and "draws_other_id rid c"
  shows "getToolResult (storage_step s c) rid = Some r"
  using assms
  by (cases c)
     (auto simp: getToolResult_def map_get_def createUser_def createNetworkTool_def
        updateNetworkTool_def createToolResult_def deleteToolResult_def map_delete_def
        createNetworkEvent_def updateNetworkEvent_def Let_def map_of_map_set
        map_of_filter_other split: option.splits)

text \<open>
  Claim C7. A stored tool result stays as it is under every sequence of calls of the
  storage interface that does not delete it by its identifier: the interface
  (\<open>storage_call\<close>) has no method that updates a tool result, and creating (under a
  newly drawn identifier), listing and reading leave the entry unchanged.
\<close>

theorem tool_result_immutable:
  assumes "getToolResult s rid = Some r"
    and "\<forall>c \<in> set calls. c \<noteq> DeleteToolResult rid \<and> draws_other_id rid c"
  shows "getToolResult (storage_run s calls) rid = Some r"
  using assms unfolding storage_run_def
proof (induction calls arbitrary: s)
  case Nil
  then show ?case by simp
next
  case (Cons c calls)
  have "getToolResult (storage_step s c) rid = Some r"
    using Cons.prems by (simp add: storage_step_keeps_result)
  then show ?case
    using Cons.IH [of "storage_step s c"] Cons.prems(2) by simp
qed

theorem tool_result_immutable_witness:
  "getToolResult example_storage ''id-a''
     = Some \<lparr>tr_id = ''id-a'', tr_toolName = ''ping'', tr_userId = None, tr_parameters = JNull,
         tr_results = JNull, tr_status = Some ''completed'', tr_executionTime = Some 5,
         tr_createdAt = Some 1000\<rparr>
   \<and> list_all (\<lambda>c. c \<noteq> DeleteToolResult ''id-a'' \<and> draws_other_id ''id-a'' c) later_calls
   \<and> getToolResult (storage_run example_storage later_calls) ''id-a''
     = Some \<lparr>tr_id = ''id-a'', tr_toolName = ''ping'', tr_userId = None, tr_parameters = JNull,
         tr_results = JNull, tr_status = Some ''completed'', tr_executionTime = Some 5,
         tr_createdAt = Some 1000\<rparr>"
proof -
  have a: "getToolResult example_storage ''id-a''
     = Some \<lparr>tr_id = ''id-a'', tr_toolName = ''ping'', tr_userId = None, tr_parameters = JNull,
         tr_results = JNull, tr_status = Some ''completed'', tr_executionTime = Some 5,
         tr_createdAt = Some 1000\<rparr>"
    by (simp add: getToolResult_def map_get_def example_storage_def storage_run_def
        empty_storage_def createToolResult_def insert_of_def Let_def string_or_null_def
        json_or_null_def int_or_null_def)
  have b: "\<forall>c \<in> set later_calls. c \<noteq> DeleteToolResult ''id-a'' \<and> draws_other_id ''id-a'' c"
    by (simp add: later_calls_def)
  show ?thesis
    using a b tool_result_immutable [OF a b] by (simp add: list_all_iff)
qed

text \<open>
  Claim C8. \<open>updateNetworkEvent(id, patch)\<close> on a stored event returns and stores the
  event with exactly the fields present in the patch overwritten, \<open>id\<close> and \<open>createdAt\<close>
  unchanged; every other event, the order of the events and the other maps stay as they
  are. When no event has the identifier, the call returns \<open>undefined\<close> and the store is
  unchanged.
\<close>

theorem updateNetworkEvent_patch:
  "(getNetworkEvent s i = None \<longrightarrow> updateNetworkEvent s i p = (None, s))
   \<and> (\<forall>e. getNetworkEvent s i = Some e \<longrightarrow>
        (\<exists>u s'. updateNetworkEvent s i p = (Some u, s')
           \<and> getNetworkEvent s' i = Some u
           \<and> ev_id u = ev_id e \<and> ev_createdAt u = ev_createdAt e
           \<and> ev_eventType u = (case pe_eventType p of None \<Rightarrow> ev_eventType e | Some v \<Rightarrow> v)
           \<and> ev_severity u = (case pe_severity p of None \<Rightarrow> ev_severity e | Some v \<Rightarrow> v)
           \<and> ev_message u = (case pe_message p of None \<Rightarrow> ev_message e | Some v \<Rightarrow> v)
           \<and> ev_source u = (case pe_source p of None \<Rightarrow> ev_source e | Some v \<Rightarrow> v)
           \<and> ev_metadata u = (case pe_metadata p of None \<Rightarrow> ev_metadata e | Some v \<Rightarrow> v)
           \<and> ev_resolved u = (case pe_resolved p of None \<Rightarrow> ev_resolved e | Some v \<Rightarrow> v)
           \<and> (\<forall>j. j \<noteq> i \<longrightarrow> getNetworkEvent s' j = getNetworkEvent s j)
           \<and> map fst (networkEvents s') = map fst (networkEvents s)
           \<and> users s' = users s \<and> networkTools s' = networkTools s
           \<and> toolResults s' = toolResults s))"
  by (auto simp: getNetworkEvent_def updateNetworkEvent_def map_get_def Let_def
      spread_event_def map_of_map_set keys_map_set)

theorem updateNetworkEvent_patch_witness:
  "getNetworkEvent example_events ''ev-9'' = None
   \<and> updateNetworkEvent example_events ''ev-9'' resolve_patch = (None, example_events)
   \<and> getNetworkEvent example_events ''ev-1''
       = Some \<lparr>ev_id = ''ev-1'', ev_eventType = ''device_connected'', ev_severity = ''info'',
           ev_message = ''first'', ev_source = Some ''network_monitor'', ev_metadata = JNull,
           ev_resolved = None, ev_createdAt = Some 100\<rparr>
   \<and> fst (updateNetworkEvent example_events ''ev-1'' resolve_patch)
       = Some \<lparr>ev_id = ''ev-1'', ev_eventType = ''device_connected'', ev_severity = ''info'',
           ev_message = ''first'', ev_source = Some ''network_monitor'', ev_metadata = JNull,
           ev_resolved = Some True, ev_createdAt = Some 100\<rparr>"
proof -
  have none: "getNetworkEvent example_events ''ev-9'' = None"
    by (simp add: getNetworkEvent_def map_get_def example_events_def storage_run_def
        empty_storage_def createNetworkEvent_def Let_def)
  have some: "getNetworkEvent example_events ''ev-1''
       = Some \<lparr>ev_id = ''ev-1'', ev_eventType = ''device_connected'', ev_severity = ''info'',
           ev_message = ''first'', ev_source = Some ''network_monitor'', ev_metadata = JNull,
           ev_resolved = None, ev_createdAt = Some 100\<rparr>"
    by (simp add: getNetworkEvent_def map_get_def example_events_def storage_run_def
        empty_storage_def createNetworkEvent_def insert_event_of_def Let_def
        string_or_null_def json_or_null_def bool_or_null_def)
  have miss: "updateNetworkEvent example_events ''ev-9'' resolve_patch = (None, example_events)"
    using updateNetworkEvent_patch [of example_events "''ev-9''" resolve_patch] none by simp
  obtain u s' where u: "updateNetworkEvent example_events ''ev-1'' resolve_patch = (Some u, s')"
    "ev_id u = ''ev-1''" "ev_createdAt u = Some 100" "ev_eventType u = ''device_connected''"
    "ev_severity u = ''info''" "ev_message u = ''first''" "ev_source u = Some ''network_monitor''"
    "ev_metadata u = JNull" "ev_resolved u = Some True"
    using updateNetworkEvent_patch [of example_events "''ev-1''" resolve_patch] some
    by (auto simp: resolve_patch_def)
  have "u = \<lparr>ev_id = ''ev-1'', ev_eventType = ''device_connected'', ev_severity = ''info'',
           ev_message = ''first'', ev_source = Some ''network_monitor'', ev_metadata = JNull,
           ev_resolved = Some True, ev_createdAt = Some 100\<rparr>"
    using u(2-) by (cases u) simp
  then show ?thesis
    using none some miss u(1) by simp
qed

section \<open>The rate limiter\<close>

lemma rate_limiter_other:
  "client_ip req \<noteq> ip \<Longrightarrow> snd (rate_limiter h req now) ip = h ip"
  by (simp add: rate_limiter_def Let_def)

lemma rate_limiter_same:
  assumes "client_ip req = ip" "ip \<notin> set object_prototype_keys"
    "h ip = Some \<lparr>bk_count = c, bk_windowStart = start\<rparr>" "now - start \<le> windowMs"
  shows "rate_limiter h req now =
           (if c + 1 > maxReq then TooManyRequests else Next,
            h(ip \<mapsto> \<lparr>bk_count = c + 1, bk_windowStart = start\<rparr>))"
  using assms by (simp add: rate_limiter_def Let_def)

lemma rate_limiter_opens:
  assumes "client_ip req = ip" "ip \<notin> set object_prototype_keys" "opens_window h ip now"
  shows "rate_limiter h req now = (Next, h(ip \<mapsto> \<lparr>bk_count = 1, bk_windowStart = now\<rparr>))"
  using assms
  by (auto simp: rate_limiter_def Let_def opens_window_def maxReq_def windowMs_def
      split: option.splits)

lemma outcomes_of_Cons:
  "outcomes_of ip (r # reqs) (out # outs) =
     (if client_ip (fst r) = ip then out # outcomes_of ip reqs outs else outcomes_of ip reqs outs)"
  by (simp add: outcomes_of_def)

lemma outcomes_of_Nil: "outcomes_of ip [] outs = []"
  by (simp add: outcomes_of_def)

lemma length_run_limiter: "length (run_limiter h reqs) = length reqs"
  by (induction reqs arbitrary: h) (auto split: prod.splits)

lemma window_outcomes:
  assumes "ip \<notin> set object_prototype_keys"
    and "h ip = Some \<lparr>bk_count = c, bk_windowStart = start\<rparr>"
    and "list_all (in_window ip start) reqs"
  shows "outcomes_of ip reqs (run_limiter h reqs) =
           map (\<lambda>j. if c + 1 + int j > maxReq then TooManyRequests else Next)
             [0 ..< length (filter (\<lambda>r. client_ip (fst r) = ip) reqs)]"
  using assms(2,3)
proof (induction reqs arbitrary: h c)
  case Nil
  then show ?case by (simp add: outcomes_of_Nil)
next
  case (Cons r reqs)
  obtain req now where r: "r = (req, now)" by (cases r)
  show ?case
  proof (cases "client_ip req = ip")
    case True
    have w: "now - start \<le> windowMs"
      using Cons.prems(2) True by (simp add: r in_window_def)
    have step: "rate_limiter h req now =
           (if c + 1 > maxReq then TooManyRequests else Next,
            h(ip \<mapsto> \<lparr>bk_count = c + 1, bk_windowStart = start\<rparr>))"
      using True assms(1) Cons.prems(1) w by (simp add: rate_limiter_same)
    have ih: "outcomes_of ip reqs (run_limiter (h(ip \<mapsto> \<lparr>bk_count = c + 1, bk_windowStart = start\<rparr>)) reqs) =
           map (\<lambda>j. if (c + 1) + 1 + int j > maxReq then TooManyRequests else Next)
             [0 ..< length (filter (\<lambda>r. client_ip (fst r) = ip) reqs)]"
      using Cons.prems(2) by (intro Cons.IH) simp_all
    show ?thesis
      using True ih
      by (simp add: r step outcomes_of_Cons upt_conv_Cons map_Suc_upt [symmetric] del: upt_Suc)
  next
    case False
    obtain out h2 where step: "rate_limiter h req now = (out, h2)"
      by (cases "rate_limiter h req now")
    have keep: "h2 ip = Some \<lparr>bk_count = c, bk_windowStart = start\<rparr>"
      using False Cons.prems(1) rate_limiter_other [of req ip h now] by (simp add: step)
    have ih: "outcomes_of ip reqs (run_limiter h2 reqs) =
           map (\<lambda>j. if c + 1 + int j > maxReq then TooManyRequests else Next)
             [0 ..< length (filter (\<lambda>r. client_ip (fst r) = ip) reqs)]"
      using Cons.prems(2) keep by (intro Cons.IH) simp_all
    show ?thesis
      using False ih by (simp add: r step outcomes_of_Cons)
  qed
qed

lemma filter_below: "filter (\<lambda>j. j < k) [0 ..< m] = [0 ..< min m k]"
proof (induction m)
  case 0
  then show ?case by simp
next
  case (Suc m)
  show ?case
  proof (cases "m < k")
    case True
    then show ?thesis using Suc by (simp add: min_def)
  next
    case False
    then have "min m k = k" "min (Suc m) k = k" by simp_all
    then show ?thesis using Suc False by simp
  qed
qed

lemma count_passed:
  "length (filter (\<lambda>out. out = Next)
      (map (\<lambda>j. if k \<le> j then TooManyRequests else Next) [0 ..< m])) = min m k"
proof -
  have "filter (\<lambda>out. out = Next) (map (\<lambda>j. if k \<le> j then TooManyRequests else Next) [0 ..< m])
        = map (\<lambda>j. if k \<le> j then TooManyRequests else Next) (filter (\<lambda>j. j < k) [0 ..< m])"
    by (simp add: filter_map comp_def not_le if_distrib [of "\<lambda>out. out = Next"] cong: if_cong)
  then show ?thesis
    by (simp add: filter_below)
qed

text \<open>
  A key with a digit, a dot or a colon in it, as every IPv4 and IPv6 address has, is not
  the name of an inherited property.
\<close>

lemma address_not_inherited:
  "list_ex (\<lambda>c. is_digit c \<or> c = CHR ''.'' \<or> c = CHR '':'') ip \<Longrightarrow>
   ip \<notin> set object_prototype_keys"
  by (auto simp: object_prototype_keys_def is_digit_def)

text \<open>
  Claim C10. For every client address (a key that is not the name of a property
  inherited from \<open>Object.prototype\<close>, which no IP address is): from the request that
  opens a window for the client, of all the requests of that client that fall in the
  window, in any interleaving with the requests of other clients, the first 60 are passed
  on and every further one gets HTTP 429; so at most 60 are passed on in a window.
\<close>

theorem rate_limiter_window:
  assumes "ip \<notin> set object_prototype_keys"
    and "client_ip req = ip"
    and "opens_window h ip start"
    and "\<forall>r \<in> set reqs. in_window ip start r"
  shows "let outs = outcomes_of ip ((req, start) # reqs) (run_limiter h ((req, start) # reqs))
         in length outs = length (filter (\<lambda>r. client_ip (fst r) = ip) ((req, start) # reqs))
            \<and> length (filter (\<lambda>out. out = Next) outs) \<le> 60
            \<and> (\<forall>j. j < length outs \<and> j < 60 \<longrightarrow> outs ! j = Next)
            \<and> (\<forall>j. j < length outs \<and> 60 \<le> j \<longrightarrow> outs ! j = TooManyRequests)"
proof -
  define n where "n = length (filter (\<lambda>r. client_ip (fst r) = ip) reqs)"
  define h' where "h' = h(ip \<mapsto> \<lparr>bk_count = 1, bk_windowStart = start\<rparr>)"
  have first: "rate_limiter h req start = (Next, h')"
    unfolding h'_def by (rule rate_limiter_opens [OF assms(2,1,3)])
  have rest: "outcomes_of ip reqs (run_limiter h' reqs) =
           map (\<lambda>j. if 1 + 1 + int j > maxReq then TooManyRequests else Next) [0 ..< n]"
    unfolding n_def
    using assms(4) by (intro window_outcomes [OF assms(1)]) (simp_all add: h'_def list_all_iff)
  have "outcomes_of ip ((req, start) # reqs) (run_limiter h ((req, start) # reqs))
          = Next # map (\<lambda>j. if 60 \<le> Suc j then TooManyRequests else Next) [0 ..< n]"
    using assms(2) rest by (simp add: first outcomes_of_Cons maxReq_def) 
  also have "\<dots> = map (\<lambda>j. if 60 \<le> j then TooManyRequests else Next) [0 ..< Suc n]"
    by (simp add: upt_conv_Cons map_Suc_upt [symmetric] del: upt_Suc)
  finally have outs: "outcomes_of ip ((req, start) # reqs) (run_limiter h ((req, start) # reqs))
          = map (\<lambda>j. if 60 \<le> j then TooManyRequests else Next) [0 ..< Suc n]" .
  have len: "length (filter (\<lambda>r. client_ip (fst r) = ip) ((req, start) # reqs)) = Suc n"
    using assms(2) by (simp add: n_def)
  show ?thesis
    unfolding Let_def outs len count_passed by (simp del: upt_Suc)
qed

theorem rate_limiter_window_witness:
  "''203.0.113.7'' \<notin> set object_prototype_keys
   \<and> client_ip (request_from ''203.0.113.7, 10.0.0.1'') = ''203.0.113.7''
   \<and> opens_window Map.empty ''203.0.113.7'' 1500
   \<and> list_all (in_window ''203.0.113.7'' 1500) burst_rest
   \<and> (let outs = outcomes_of ''203.0.113.7''
                    ((request_from ''203.0.113.7, 10.0.0.1'', 1500) # burst_rest)
                    (run_limiter Map.empty
                       ((request_from ''203.0.113.7, 10.0.0.1'', 1500) # burst_rest))
       in length outs = 62 \<and> length (filter (\<lambda>out. out = Next) outs) \<le> 60
          \<and> outs ! 59 = Next \<and> outs ! 60 = TooManyRequests \<and> outs ! 61 = TooManyRequests)"
proof -
  have ip1: "client_ip (request_from ''203.0.113.7, 10.0.0.1'') = ''203.0.113.7''"
    by (simp add: client_ip_def request_from_def js_trim_def is_js_space_def)
  have ip2: "client_ip (request_from ''203.0.113.7'') = ''203.0.113.7''"
    by (simp add: client_ip_def request_from_def js_trim_def is_js_space_def)
  have ip3: "client_ip (request_from ''198.51.100.2'') = ''198.51.100.2''"
    by (simp add: client_ip_def request_from_def js_trim_def is_js_space_def)
  have a: "''203.0.113.7'' \<notin> set object_prototype_keys"
    by (simp add: object_prototype_keys_def)
  have c: "opens_window Map.empty ''203.0.113.7'' 1500"
    by (simp add: opens_window_def)
  have d: "list_all (in_window ''203.0.113.7'' 1500) burst_rest"
    by (simp add: burst_rest_def in_window_def ip1 ip2 ip3 windowMs_def list_all_iff)
  have n: "length (filter (\<lambda>r. client_ip (fst r) = ''203.0.113.7'')
             ((request_from ''203.0.113.7, 10.0.0.1'', 1500) # burst_rest)) = 62"
    by (simp add: burst_rest_def ip1 ip2 ip3)
  show ?thesis
    using a ip1 c d n
      rate_limiter_window [OF a ip1 c, of burst_rest]
    by (simp add: Let_def list_all_iff)
qed


section \<open>The subnet calculator\<close>







section \<open>The port scanner\<close>

lemma batches_Nil: "batches n [] = []"
  by (simp add: batches.simps [of n "[]"])

lemma concat_batches: "0 < n \<Longrightarrow> concat (batches n xs) = xs"
proof (induction n xs rule: batches.induct)
  case (1 concurrency ports)
  show ?case
  proof (cases "ports = []")
    case True
    then show ?thesis by (simp add: batches_Nil)
  next
    case False
    then show ?thesis
      using 1 by (simp add: batches.simps [of concurrency ports])
  qed
qed

lemma batches_zero: "batches 0 xs = []"
  by (simp add: batches.simps [of 0 xs])

lemma set_batch_opens: "set (batch_opens probe batch) \<subseteq> set batch"
  by (auto simp: batch_opens_def)

lemma set_scan_opens:
  "set (concat (map (batch_opens probe) (batches n xs))) \<subseteq> set xs"
proof (cases "n = 0")
  case True
  then show ?thesis by (simp add: batches_zero)
next
  case False
  have "set (concat (map (batch_opens probe) (batches n xs))) \<subseteq> set (concat (batches n xs))"
    using set_batch_opens by fastforce
  then show ?thesis using False by (simp add: concat_batches)
qed

lemma scan_ports_open:
  assumes "fst (scan_ports n probe host startPort endPort) = Json r"
  shows "\<forall>p \<in> set (openPorts r). startPort \<le> port p \<and> port p \<le> endPort"
proof -
  define opened where
    "opened = concat (map (batch_opens (probe host)) (batches n [startPort .. endPort]))"
  have "map port (openPorts r) = opened"
    using assms by (auto simp: scan_ports_def Let_def opened_def comp_def)
  moreover have "set opened \<subseteq> set [startPort .. endPort]"
    unfolding opened_def by (rule set_scan_opens)
  ultimately have "port ` set (openPorts r) \<subseteq> {startPort .. endPort}"
    by (metis set_map set_upto)
  then show ?thesis by auto
qed

lemma scan_ports_calls:
  "snd (scan_ports n probe host startPort endPort) = map (SocketConnect host) [startPort .. endPort]"
  "\<exists>r. fst (scan_ports n probe host startPort endPort) = Json r"
  by (simp_all add: scan_ports_def Let_def)

text \<open>
  Claim C3. Whenever a port-scan handler answers with a result (the scanning handlers of
  \<open>registerRoutes\<close> and \<open>attachRoutes\<close> do so only for a valid range, the simulating
  handler always), every port in \<open>openPorts\<close> lies between \<open>startPort\<close> and \<open>endPort\<close>:
  no port outside the requested range is reported as open.
\<close>

theorem open_ports_within_range:
  assumes "fst (port_scan probe body) = Json r \<or> fst (port_scan_attach probe body) = Json r
           \<or> fst (port_scan_mock random body) = Json r"
  shows "\<forall>p \<in> set (openPorts r).
           (case ps_startPort body of None \<Rightarrow> 1 | Some s \<Rightarrow> s) \<le> port p
           \<and> port p \<le> (case ps_endPort body of None \<Rightarrow> 1000 | Some e \<Rightarrow> e)"
proof -
  define startPort where "startPort = (case ps_startPort body of None \<Rightarrow> 1 | Some s \<Rightarrow> s)"
  define endPort where "endPort = (case ps_endPort body of None \<Rightarrow> 1000 | Some e \<Rightarrow> e)"
  consider (real) n host where "fst (scan_ports n probe host startPort endPort) = Json r"
    | (mock) "fst (port_scan_mock random body) = Json r"
    using assms
    by (auto simp: port_scan_def port_scan_attach_def Let_def startPort_def endPort_def
        split: option.splits if_splits)
  then have "\<forall>p \<in> set (openPorts r). startPort \<le> port p \<and> port p \<le> endPort"
  proof cases
    case real
    then show ?thesis by (rule scan_ports_open)
  next
    case mock
    then show ?thesis
      by (auto simp: port_scan_mock_def Let_def startPort_def endPort_def)
  qed
  then show ?thesis
    unfolding startPort_def endPort_def .
qed

lemma example_scan:
  "port_scan example_probe example_scan_request =
     (Json \<lparr>sr_host = Some ''scanme.example'',
            openPorts = [\<lparr>port = 80, protocol = ''TCP'', state = ''open'', service = Some ''HTTP''\<rparr>],
            totalScanned = 5, openCount = 1\<rparr>,
      map (SocketConnect ''scanme.example'') [78, 79, 80, 81, 82])"
  by (simp add: port_scan_def example_scan_request_def string_or_null_def scan_ports_def
      Let_def upto.simps batches.simps batch_opens_def example_probe_def connect_time_def
      serviceMap_def)

theorem open_ports_within_range_witness:
  "fst (port_scan example_probe example_scan_request)
     = Json \<lparr>sr_host = Some ''scanme.example'',
            openPorts = [\<lparr>port = 80, protocol = ''TCP'', state = ''open'', service = Some ''HTTP''\<rparr>],
            totalScanned = 5, openCount = 1\<rparr>
   \<and> list_all (\<lambda>p. 78 \<le> port p \<and> port p \<le> 82)
        (openPorts \<lparr>sr_host = Some ''scanme.example'',
            openPorts = [\<lparr>port = 80, protocol = ''TCP'', state = ''open'', service = Some ''HTTP''\<rparr>],
            totalScanned = 5, openCount = 1\<rparr>)"
proof -
  have a: "fst (port_scan example_probe example_scan_request)
     = Json \<lparr>sr_host = Some ''scanme.example'',
            openPorts = [\<lparr>port = 80, protocol = ''TCP'', state = ''open'', service = Some ''HTTP''\<rparr>],
            totalScanned = 5, openCount = 1\<rparr>"
    by (simp add: example_scan)
  show ?thesis
    using a open_ports_within_range [OF disjI1 [OF a]]
    by (simp add: example_scan_request_def)
qed

text \<open>
  Claim C5, at the request \<open>host = "scanme.example", startPort = 1, endPort = 65535\<close>: the
  handler of \<open>registerRoutes\<close> answers 200 and connects a socket to each of the 65535
  ports, while the handler of \<open>attachRoutes\<close> rejects the same request with 400 and
  opens no socket.
\<close>

theorem port_scan_span_not_capped:
  "status_code (fst (port_scan probe wide_scan_request)) = 200
   \<and> snd (port_scan probe wide_scan_request) = map (SocketConnect ''scanme.example'') [1 .. 65535]
   \<and> length (snd (port_scan probe wide_scan_request)) = 65535
   \<and> port_scan_attach probe wide_scan_request
       = (BadRequest ''invalid or too large port range (max 2000)'', [])"
proof -
  have run: "port_scan probe wide_scan_request = scan_ports 200 probe ''scanme.example'' 1 65535"
    by (simp add: port_scan_def wide_scan_request_def string_or_null_def)
  obtain r where r: "fst (scan_ports 200 probe ''scanme.example'' 1 65535) = Json r"
    using scan_ports_calls(2) by blast
  have "port_scan_attach probe wide_scan_request
       = (BadRequest ''invalid or too large port range (max 2000)'', [])"
    by (simp add: port_scan_attach_def wide_scan_request_def string_or_null_def)
  then show ?thesis
    by (simp add: run r scan_ports_calls(1))
qed


section \<open>Ping statistics and input checks\<close>













lemma string_of_nat_digit: "n < 10 \<Longrightarrow> string_of_nat n = [''0123456789'' ! n]"
  by (simp add: string_of_nat.simps [of n])

lemma four_trials: "[0 ..< 4] = [0, 1, 2, 3 :: nat]"
  by (simp add: upt_conv_Cons eval_nat_numeral)

lemma Suc_Suc_0: "Suc (Suc 0) = 2"
  by simp

lemma not_valid_examples:
  "\<not> validateDomain ''not a host!'' \<and> \<not> validateIPAddress ''not a host!''
   \<and> \<not> validateDomain ''not a domain!''"
  by (simp add: validateDomain_def validateIPAddress_def valid_label_def is_alnum_def
      is_digit_def lower_ascii_def)


text \<open>
  Claim C4 does not hold as stated: the string \<open>"not a host!"\<close> is neither a domain nor
  an IP address for the client's validators, yet for it the ping handler of
  \<open>registerRoutes\<close> spawns \<open>ping\<close> (and answers 500 when that fails), the handler of
  \<open>attachRoutes\<close> spawns \<open>ping\<close> and connects four sockets (and answers 200), and the
  DNS handler calls the resolver for \<open>"not a domain!"\<close>.
\<close>

theorem invalid_host_reaches_network:
  "\<not> validateDomain ''not a host!'' \<and> \<not> validateIPAddress ''not a host!''
   \<and> pg_host bad_host_request = Some (JStr ''not a host!'')
   \<and> ping offline_world bad_host_request
       = (ServerError ''Ping execution failed'',
          [ExecFile ''ping'' [''-c'', ''4'', ''-w'', ''5'', ''not a host!'']])
   \<and> status_code (fst (ping_attach offline_world bad_host_request)) = 200
   \<and> snd (ping_attach offline_world bad_host_request)
       = [ExecFile ''ping'' [''-c'', ''4'', ''-w'', ''5'', ''not a host!''],
          SocketConnect ''not a host!'' 80, SocketConnect ''not a host!'' 443,
          SocketConnect ''not a host!'' 80, SocketConnect ''not a host!'' 443]
   \<and> \<not> validateDomain ''not a domain!''
   \<and> dns_lookup failing_resolver bad_domain_request
       = (ServerError ''DNS lookup failed'', [Resolve ''A'' ''not a domain!''])"
  using not_valid_examples
  by (simp add: bad_host_request_def ping_def ping_attach_def
      offline_world_def ping_args_def string_of_int_def string_of_nat_digit tcp_fallback_def
      Let_def dns_lookup_def failing_resolver_def bad_domain_request_def string_or_null_def
      four_trials Suc_Suc_0)

text \<open>
  Claim C4, amended. A ping request whose \<open>host\<close> is missing, not a string or empty, a
  DNS lookup whose \<open>domain\<close> is missing or empty or whose record type is not supported,
  and a port scan (by a scanning handler) whose \<open>host\<close> is missing or empty or whose
  range has \<open>startPort < 1\<close>, \<open>endPort > 65535\<close> or \<open>startPort > endPort\<close> are answered
  with HTTP 400, and the handler makes no network call.
\<close>

theorem missing_input_rejected_before_network:
  "((\<forall>h. pg_host body \<noteq> Some (JStr h)) \<or> pg_host body = Some (JStr []) \<longrightarrow>
      ping w body = (BadRequest ''host is required'', [])
      \<and> ping_attach w body = (BadRequest ''host is required'', []))
   \<and> (dn_domain dbody = None \<or> dn_domain dbody = Some [] \<longrightarrow>
      dns_lookup resolve dbody = (BadRequest ''domain is required'', []))
   \<and> (dn_recordType dbody = Some t
        \<and> t \<notin> set [''A'', ''AAAA'', ''MX'', ''TXT'', ''CNAME'', ''NS'', ''SRV'', ''SOA''] \<longrightarrow>
      status_code (fst (dns_lookup resolve dbody)) = 400 \<and> snd (dns_lookup resolve dbody) = [])
   \<and> (ps_host sbody = None \<or> ps_host sbody = Some []
        \<or> (case ps_startPort sbody of None \<Rightarrow> 1 | Some s \<Rightarrow> s) < 1
        \<or> (case ps_endPort sbody of None \<Rightarrow> 1000 | Some e \<Rightarrow> e) > 65535
        \<or> (case ps_startPort sbody of None \<Rightarrow> 1 | Some s \<Rightarrow> s)
            > (case ps_endPort sbody of None \<Rightarrow> 1000 | Some e \<Rightarrow> e) \<longrightarrow>
      status_code (fst (port_scan probe sbody)) = 400 \<and> snd (port_scan probe sbody) = []
      \<and> status_code (fst (port_scan_attach probe sbody)) = 400
      \<and> snd (port_scan_attach probe sbody) = [])"
proof -
  have ping_part: "ping w body = (BadRequest ''host is required'', [])
      \<and> ping_attach w body = (BadRequest ''host is required'', [])"
    if "(\<forall>h. pg_host body \<noteq> Some (JStr h)) \<or> pg_host body = Some (JStr [])"
    using that
    by (auto simp: ping_def ping_attach_def Let_def split: option.splits json.splits)
  have dns_part: "dns_lookup resolve dbody = (BadRequest ''domain is required'', [])"
    if "dn_domain dbody = None \<or> dn_domain dbody = Some []"
    using that by (auto simp: dns_lookup_def string_or_null_def Let_def)
  have type_part: "status_code (fst (dns_lookup resolve dbody)) = 400
      \<and> snd (dns_lookup resolve dbody) = []"
    if "dn_recordType dbody = Some t
        \<and> t \<notin> set [''A'', ''AAAA'', ''MX'', ''TXT'', ''CNAME'', ''NS'', ''SRV'', ''SOA'']"
    using that by (simp add: dns_lookup_def Let_def split: option.splits)
  have scan_part: "status_code (fst (port_scan probe sbody)) = 400 \<and> snd (port_scan probe sbody) = []
      \<and> status_code (fst (port_scan_attach probe sbody)) = 400
      \<and> snd (port_scan_attach probe sbody) = []"
    if "ps_host sbody = None \<or> ps_host sbody = Some []
        \<or> (case ps_startPort sbody of None \<Rightarrow> 1 | Some s \<Rightarrow> s) < 1
        \<or> (case ps_endPort sbody of None \<Rightarrow> 1000 | Some e \<Rightarrow> e) > 65535
        \<or> (case ps_startPort sbody of None \<Rightarrow> 1 | Some s \<Rightarrow> s)
            > (case ps_endPort sbody of None \<Rightarrow> 1000 | Some e \<Rightarrow> e)"
    using that
    by (auto simp: port_scan_def port_scan_attach_def string_or_null_def Let_def
        split: option.splits)
  show ?thesis
    using ping_part dns_part type_part scan_part by blast
qed

theorem missing_input_rejected_before_network_witness:
  "pg_host no_host_request = None
   \<and> ping example_world no_host_request = (BadRequest ''host is required'', [])
   \<and> ping_attach example_world no_host_request = (BadRequest ''host is required'', [])
   \<and> dn_domain no_domain_request = Some []
   \<and> dns_lookup failing_resolver no_domain_request = (BadRequest ''domain is required'', [])
   \<and> (case ps_startPort reversed_scan_request of None \<Rightarrow> 1 | Some s \<Rightarrow> s)
       > (case ps_endPort reversed_scan_request of None \<Rightarrow> 1000 | Some e \<Rightarrow> e)
   \<and> status_code (fst (port_scan example_probe reversed_scan_request)) = 400
   \<and> snd (port_scan example_probe reversed_scan_request) = []
   \<and> status_code (fst (port_scan_attach example_probe reversed_scan_request)) = 400
   \<and> snd (port_scan_attach example_probe reversed_scan_request) = []"
proof -
  have a: "pg_host no_host_request = None"
    by (simp add: no_host_request_def)
  have b: "dn_domain no_domain_request = Some []"
    by (simp add: no_domain_request_def)
  have c: "(case ps_startPort reversed_scan_request of None \<Rightarrow> 1 | Some s \<Rightarrow> s)
       > (case ps_endPort reversed_scan_request of None \<Rightarrow> 1000 | Some e \<Rightarrow> e)"
    by (simp add: reversed_scan_request_def)
  show ?thesis
    using a b c
      missing_input_rejected_before_network
        [of no_host_request example_world no_domain_request failing_resolver _
            reversed_scan_request example_probe]
    by simp
qed


end
